theory Spec2Isabelle
  imports Main "HOL-Library.AList"
begin

section \<open>JavaScript values at the boundary of the client\<close>

text \<open>
  The client of \<^verbatim>\<open>src/modules/client.ts\<close> handles three kinds of JavaScript
  values: the variables of a request, the body that \<^verbatim>\<open>res.json()\<close> parses, and
  the values it stores in \<^verbatim>\<open>this.store\<close>. All of them are JSON trees. The type of
  numbers is a parameter \<open>'n\<close>: the client only tests a number for being zero (in a
  truthiness test) and prints it (inside \<^verbatim>\<open>JSON.stringify\<close>), and the printer is
  passed as an argument. An object is the list of its own enumerable properties in the
  order the engine enumerates them, which is insertion order for keys that are not array
  indices; the keys of an object are distinct.
\<close>

datatype 'n json =
    JNull
  | JBool bool
  | JNum 'n
  | JStr string
  | JArr "'n json list"
  | JObj "(string \<times> 'n json) list"

text \<open>
  \<^verbatim>\<open>if (v)\<close>: \<^verbatim>\<open>null\<close>, \<^verbatim>\<open>false\<close>, \<^verbatim>\<open>0\<close> and \<^verbatim>\<open>""\<close> are falsy, every
  object and array is truthy. \<^verbatim>\<open>undefined\<close>, the value of a missing property, is
  \<open>None\<close> and falsy.
\<close>

fun truthy :: "('n::zero) json \<Rightarrow> bool" where
  "truthy JNull = False"
| "truthy (JBool b) = b"
| "truthy (JNum n) = (n \<noteq> 0)"
| "truthy (JStr s) = (s \<noteq> [])"
| "truthy (JArr xs) = True"
| "truthy (JObj kvs) = True"

fun truthy_opt :: "('n::zero) json option \<Rightarrow> bool" where
  "truthy_opt None = False"
| "truthy_opt (Some v) = truthy v"

subsection \<open>\<^verbatim>\<open>JSON.stringify\<close>\<close>

definition hex_digit :: "nat \<Rightarrow> char" where
  "hex_digit d = (''0123456789abcdef'') ! (d mod 16)"

text \<open>
  The string quoting of \<^verbatim>\<open>JSON.stringify\<close>: the double quote and the backslash are
  escaped, the control characters below \<^verbatim>\<open>0x20\<close> are written with their short
  escape or as \<^verbatim>\<open>\u00XX\<close>, every other character is copied.
\<close>

definition escape_char :: "char \<Rightarrow> string" where
  "escape_char c =
     (if c = CHR 0x22 then [CHR 0x5C, CHR 0x22]
      else if c = CHR 0x5C then [CHR 0x5C, CHR 0x5C]
      else if c = CHR 0x08 then [CHR 0x5C, CHR ''b'']
      else if c = CHR 0x0C then [CHR 0x5C, CHR ''f'']
      else if c = CHR 0x0A then [CHR 0x5C, CHR ''n'']
      else if c = CHR 0x0D then [CHR 0x5C, CHR ''r'']
      else if c = CHR 0x09 then [CHR 0x5C, CHR ''t'']
      else if (of_char c :: nat) < 32
        then [CHR 0x5C, CHR ''u'', CHR ''0'', CHR ''0'',
              hex_digit (of_char c div 16), hex_digit (of_char c)]
      else [c])"

definition quote :: "string \<Rightarrow> string" where
  "quote s = [CHR 0x22] @ concat (map escape_char s) @ [CHR 0x22]"

fun join :: "string \<Rightarrow> string list \<Rightarrow> string" where
  "join sep [] = []"
| "join sep [x] = x"
| "join sep (x # y # ys) = x @ sep @ join sep (y # ys)"

fun stringify :: "('n \<Rightarrow> string) \<Rightarrow> 'n json \<Rightarrow> string" where
  "stringify num JNull = ''null''"
| "stringify num (JBool b) = (if b then ''true'' else ''false'')"
| "stringify num (JNum n) = num n"
| "stringify num (JStr s) = quote s"
| "stringify num (JArr xs) = ''['' @ join '','' (map (stringify num) xs) @ '']''"
| "stringify num (JObj kvs) =
     ''{'' @ join '','' (map (\<lambda>kv. quote (fst kv) @ '':'' @ stringify num (snd kv)) kvs) @ ''}''"

section \<open>The client\<close>

text \<open>
  \<^verbatim>\<open>class Client\<close>. The store is a JavaScript object used as a dictionary from
  the request hash to the cached response data; it is never enumerated, so it is a map.
  Its keys are the values of \<^verbatim>\<open>hashString\<close>, digests that do not name a property
  an object inherits. The subscriptions are enumerated with \<^verbatim>\<open>for ... in\<close>, so they
  are the list of the object's properties in enumeration order; their keys are the
  identifiers \<^verbatim>\<open>uuid.v4()\<close> gives, which are not array indices.
  \<^verbatim>\<open>fetchOptions\<close> is an object or a function that returns one.

  A subscribed callback is a function of the code that uses the client. The model keeps what
  the client can observe of a call of it: the calls of \<^verbatim>\<open>subscribe\<close> and
  \<^verbatim>\<open>unsubscribe\<close> the callback makes on the client while it runs, in order, and then
  whether it returns (\<open>None\<close>) or throws a value (\<open>Some e\<close>). A callback that calls
  \<^verbatim>\<open>executeQuery\<close> or \<^verbatim>\<open>executeMutation\<close> only starts a request: the handlers
  that change the client run after the callback has returned, as calls of their own. A
  callback that calls \<^verbatim>\<open>updateSubscribers\<close> itself is not part of the model.
\<close>

datatype ('n, 'e) callback =
    Callback "string list \<Rightarrow> 'n json \<Rightarrow> ('n, 'e) reentry list \<times> 'e option"
and ('n, 'e) reentry =
    CallsSubscribe string "('n, 'e) callback"
  | CallsUnsubscribe string

fun call_back ::
  "('n, 'e) callback \<Rightarrow> string list \<Rightarrow> 'n json \<Rightarrow> ('n, 'e) reentry list \<times> 'e option" where
  "call_back (Callback f) typenames changes = f typenames changes"

datatype 'n fetch_options =
    Static "(string \<times> 'n json) list"
  | Provider "unit \<Rightarrow> (string \<times> 'n json) list"

record ('n, 'h, 'e) client =
  url :: string
  store :: "'h \<rightharpoonup> 'n json"
  fetchOptions :: "'n fetch_options"
  subscriptions :: "(string \<times> ('n, 'e) callback) list"

text \<open>\<^verbatim>\<open>IClientOptions\<close>: both fields may be missing.\<close>

record 'n client_options =
  opts_url :: "string option"
  opts_fetchOptions :: "'n fetch_options option"

text \<open>\<^verbatim>\<open>IQuery\<close> and \<^verbatim>\<open>IMutation\<close>: a query string and the object of its variables.\<close>

record 'n query_object =
  query :: string
  variables :: "(string \<times> 'n json) list"

text \<open>\<^verbatim>\<open>IQueryResponse\<close>.\<close>

record 'n query_response =
  data :: "'n json"
  typeNames :: "string list"

text \<open>
  What a promise of the client is rejected with: the object literal
  \<^verbatim>\<open>{ message: '...' }\<close>, an exception the engine raises inside a handler (the
  \<^verbatim>\<open>TypeError\<close> of reading a property of \<^verbatim>\<open>null\<close>), or a value thrown
  outside the client (by the transport or by a callback). The last two reach the promise
  through \<^verbatim>\<open>.catch(e => reject(e))\<close>.
\<close>

datatype exception = TypeError

datatype 'e reason = Message string | Raised exception | Thrown 'e

text \<open>
  The outcome of \<^verbatim>\<open>fetch(...).then(res => res.json())\<close>: the chain is rejected, or
  the body parses to a JSON value.
\<close>

datatype ('n, 'e) fetch_outcome = Rejects 'e | Parses "'n json"

text \<open>
  The calls the client makes to its collaborators, in order: \<^verbatim>\<open>fetch(url, init)\<close>
  and \<^verbatim>\<open>this.subscriptions[sub](typenames, changes)\<close>.
\<close>

datatype 'n event =
    Fetch string "(string \<times> 'n json) list"
  | Call string "string list" "'n json"

text \<open>
  The constructor throws an \<^verbatim>\<open>Error\<close> when there are no options or when
  \<^verbatim>\<open>opts.url\<close> is falsy (missing or empty).
\<close>

definition "constructor" ::
  "'n client_options option \<Rightarrow> string + ('n, 'h, 'e) client" where
  "constructor opts =
     (case opts of
        None \<Rightarrow> Inl ''Please provide configuration object''
      | Some o1 \<Rightarrow>
          (case opts_url o1 of
             None \<Rightarrow> Inl ''Please provide a URL for your GraphQL API''
           | Some u \<Rightarrow>
               if u = [] then Inl ''Please provide a URL for your GraphQL API''
               else Inr \<lparr> url = u, store = Map.empty,
                          fetchOptions = (case opts_fetchOptions o1 of
                                            None \<Rightarrow> Static [] | Some fo \<Rightarrow> fo),
                          subscriptions = [] \<rparr>))"

text \<open>
  \<^verbatim>\<open>subscribe\<close>: \<open>id'\<close> is the identifier \<^verbatim>\<open>uuid.v4()\<close> returned. Assigning to a
  key the object has keeps its place, assigning to a new key adds it last.
\<close>

definition subscribe ::
  "string \<Rightarrow> ('n, 'e) callback \<Rightarrow> ('n, 'h, 'e) client \<Rightarrow> ('n, 'h, 'e) client \<times> string" where
  "subscribe id' callback s =
     (s\<lparr>subscriptions := AList.update id' callback (subscriptions s)\<rparr>, id')"

text \<open>\<^verbatim>\<open>unsubscribe\<close>: \<^verbatim>\<open>delete\<close> removes the property if the object has it.\<close>

definition unsubscribe :: "string \<Rightarrow> ('n, 'h, 'e) client \<Rightarrow> ('n, 'h, 'e) client" where
  "unsubscribe id' s = s\<lparr>subscriptions := AList.delete id' (subscriptions s)\<rparr>"

text \<open>What a call a callback makes on the client does to the client.\<close>

fun reenter :: "('n, 'e) reentry \<Rightarrow> ('n, 'h, 'e) client \<Rightarrow> ('n, 'h, 'e) client" where
  "reenter (CallsSubscribe id' callback) s = fst (subscribe id' callback s)"
| "reenter (CallsUnsubscribe id') s = unsubscribe id' s"

text \<open>
  \<^verbatim>\<open>updateSubscribers\<close>: the loop \<^verbatim>\<open>for (const sub in this.subscriptions)\<close> runs
  over the live object. As the for-in iterator of the language does, the loop takes the
  keys of the object once, when it starts, and visits them in order; a key whose property
  has been deleted before the loop reaches it is skipped, and a key added while the loop
  runs is not visited. A key the loop visits is an own property, so the
  \<^verbatim>\<open>hasOwnProperty\<close> test passes, and the callback called is the one the object
  holds under the key at that moment. What the callback does to the subscriptions stays
  done. A callback that throws ends the loop: the result is the client, the calls made and
  the value thrown, if any.
\<close>

fun updateSubscribers_loop ::
  "string list \<Rightarrow> string list \<Rightarrow> 'n json \<Rightarrow> ('n, 'h, 'e) client
     \<Rightarrow> ('n, 'h, 'e) client \<times> 'n event list \<times> 'e option" where
  "updateSubscribers_loop [] typenames changes s = (s, [], None)"
| "updateSubscribers_loop (sub # rest) typenames changes s =
     (case map_of (subscriptions s) sub of
        None \<Rightarrow> updateSubscribers_loop rest typenames changes s
      | Some callback \<Rightarrow>
          (let (reentries, thrown) = call_back callback typenames changes;
               s' = fold reenter reentries s
           in case thrown of
                Some e \<Rightarrow> (s', [Call sub typenames changes], Some e)
              | None \<Rightarrow>
                  (let (s'', calls, thrown') = updateSubscribers_loop rest typenames changes s'
                   in (s'', Call sub typenames changes # calls, thrown'))))"

definition updateSubscribers ::
  "('n, 'h, 'e) client \<Rightarrow> string list \<Rightarrow> 'n json
     \<Rightarrow> ('n, 'h, 'e) client \<times> 'n event list \<times> 'e option" where
  "updateSubscribers s typenames changes =
     updateSubscribers_loop (map fst (subscriptions s)) typenames changes s"

subsection \<open>Requests\<close>

text \<open>\<^verbatim>\<open>JSON.stringify({ query, variables })\<close>.\<close>

definition request_body :: "('n \<Rightarrow> string) \<Rightarrow> 'n query_object \<Rightarrow> string" where
  "request_body num q =
     stringify num (JObj [(''query'', JStr (query q)), (''variables'', JObj (variables q))])"

text \<open>
  \<^verbatim>\<open>typeof this.fetchOptions === 'function' ? this.fetchOptions() : this.fetchOptions\<close>
\<close>

definition resolve_fetchOptions :: "'n fetch_options \<Rightarrow> (string \<times> 'n json) list" where
  "resolve_fetchOptions fo = (case fo of Static obj \<Rightarrow> obj | Provider f \<Rightarrow> f ())"

text \<open>
  The second argument of \<^verbatim>\<open>fetch\<close>: the three properties of the literal, then the
  spread of the options, which overwrites a property of the same name.
\<close>

definition fetch_init :: "string \<Rightarrow> (string \<times> 'n json) list \<Rightarrow> (string \<times> 'n json) list" where
  "fetch_init body opts =
     fold (\<lambda>kv. AList.update (fst kv) (snd kv)) opts
       [(''body'', JStr body),
        (''headers'', JObj [(''Content-Type'', JStr ''application/json'')]),
        (''method'', JStr ''POST'')]"

text \<open>
  \<^verbatim>\<open>response.data\<close>: reading a property of \<^verbatim>\<open>null\<close> throws a
  \<^verbatim>\<open>TypeError\<close>; an object gives the property or \<^verbatim>\<open>undefined\<close>; the other
  values have no property \<^verbatim>\<open>data\<close>.
\<close>

fun response_data :: "'n json \<Rightarrow> exception + 'n json option" where
  "response_data JNull = Inl TypeError"
| "response_data (JObj kvs) = Inr (map_of kvs ''data'')"
| "response_data (JBool b) = Inr None"
| "response_data (JNum n) = Inr None"
| "response_data (JStr s) = Inr None"
| "response_data (JArr xs) = Inr None"

subsection \<open>\<^verbatim>\<open>executeQuery\<close> and \<^verbatim>\<open>executeMutation\<close>\<close>

text \<open>
  Two functions the file imports are not part of it and are arguments of the model:
  \<open>hashString\<close> (from \<^verbatim>\<open>./hash\<close>), which gives the key of the store, and
  \<open>gankTypeNamesFromResponse\<close> (from \<^verbatim>\<open>../modules/typenames\<close>). \<open>num\<close> is the
  printer of numbers inside \<^verbatim>\<open>JSON.stringify\<close>, and \<open>fetch\<close> is the transport:
  it answers a call \<^verbatim>\<open>fetch(url, init)\<close> with a rejection or a parsed body.

  Every operation returns the client after it, the calls it made to the collaborators,
  and what its promise settles with: \<open>Inr\<close> a resolved value, \<open>Inl\<close> a rejection.
  \<^verbatim>\<open>executeMutation\<close> can change the client only through what the callbacks do to
  the subscriptions.
\<close>

text \<open>
  The handler \<^verbatim>\<open>.then(response => { ... })\<close> of \<^verbatim>\<open>executeQuery\<close>, with the
  \<^verbatim>\<open>.catch\<close> after it for the exception of \<^verbatim>\<open>response.data\<close>.
\<close>

definition executeQuery_then ::
  "(('n::zero) json \<Rightarrow> string list) \<Rightarrow> 'h \<Rightarrow> 'n json \<Rightarrow> ('n, 'h, 'e) client
     \<Rightarrow> ('n, 'h, 'e) client \<times> ('e reason + 'n query_response)" where
  "executeQuery_then gankTypeNamesFromResponse hash response s =
     (case response_data response of
        Inl e \<Rightarrow> (s, Inl (Raised e))
      | Inr d \<Rightarrow>
          if truthy_opt d then
            (let typeNames = gankTypeNamesFromResponse (the d)
             in (s\<lparr>store := (store s)(hash \<mapsto> the d)\<rparr>,
                 Inr \<lparr>data = the d, typeNames = typeNames\<rparr>))
          else (s, Inl (Message ''No data'')))"

definition executeQuery ::
  "(('n::zero) \<Rightarrow> string) \<Rightarrow> (string \<Rightarrow> 'h) \<Rightarrow> ('n json \<Rightarrow> string list)
     \<Rightarrow> (string \<Rightarrow> (string \<times> 'n json) list \<Rightarrow> ('n, 'e) fetch_outcome)
     \<Rightarrow> 'n query_object \<Rightarrow> bool \<Rightarrow> ('n, 'h, 'e) client
     \<Rightarrow> ('n, 'h, 'e) client \<times> 'n event list \<times> ('e reason + 'n query_response)" where
  "executeQuery num hashString gankTypeNamesFromResponse fetch queryObject skipCache s =
     (let body = request_body num queryObject;
          hash = hashString body
      in if truthy_opt (store s hash) \<and> \<not> skipCache then
           (let typeNames = gankTypeNamesFromResponse (the (store s hash))
            in (s, [], Inr \<lparr>data = the (store s hash), typeNames = typeNames\<rparr>))
         else
           (let init = fetch_init body (resolve_fetchOptions (fetchOptions s))
            in case fetch (url s) init of
                 Rejects e \<Rightarrow> (s, [Fetch (url s) init], Inl (Thrown e))
               | Parses response \<Rightarrow>
                   (let (s', r) = executeQuery_then gankTypeNamesFromResponse hash response s
                    in (s', [Fetch (url s) init], r))))"

text \<open>
  The handler \<^verbatim>\<open>.then(response => { ... })\<close> of \<^verbatim>\<open>executeMutation\<close>, with the
  \<^verbatim>\<open>.catch\<close> after it: it also catches what a callback throws inside
  \<^verbatim>\<open>updateSubscribers\<close>.
\<close>

definition executeMutation_then ::
  "(('n::zero) json \<Rightarrow> string list) \<Rightarrow> 'n json \<Rightarrow> ('n, 'h, 'e) client
     \<Rightarrow> ('n, 'h, 'e) client \<times> 'n event list \<times> ('e reason + 'n json)" where
  "executeMutation_then gankTypeNamesFromResponse response s =
     (case response_data response of
        Inl e \<Rightarrow> (s, [], Inl (Raised e))
      | Inr d \<Rightarrow>
          if truthy_opt d then
            (let typeNames = gankTypeNamesFromResponse (the d);
                 (s', calls, thrown) = updateSubscribers s typeNames response
             in case thrown of
                  Some e \<Rightarrow> (s', calls, Inl (Thrown e))
                | None \<Rightarrow> (s', calls, Inr (the d)))
          else (s, [], Inl (Message ''No data'')))"

definition executeMutation ::
  "(('n::zero) \<Rightarrow> string) \<Rightarrow> ('n json \<Rightarrow> string list)
     \<Rightarrow> (string \<Rightarrow> (string \<times> 'n json) list \<Rightarrow> ('n, 'e) fetch_outcome)
     \<Rightarrow> 'n query_object \<Rightarrow> ('n, 'h, 'e) client
     \<Rightarrow> ('n, 'h, 'e) client \<times> 'n event list \<times> ('e reason + 'n json)" where
  "executeMutation num gankTypeNamesFromResponse fetch mutationObject s =
     (let body = request_body num mutationObject;
          init = fetch_init body (resolve_fetchOptions (fetchOptions s))
      in case fetch (url s) init of
           Rejects e \<Rightarrow> (s, [Fetch (url s) init], Inl (Thrown e))
         | Parses response \<Rightarrow>
             (let (s', calls, r) = executeMutation_then gankTypeNamesFromResponse response s
              in (s', Fetch (url s) init # calls, r)))"

subsection \<open>Runs of a client\<close>

text \<open>
  A client is used by calling its methods one after the other. A run is the list of the
  calls; each call of \<^verbatim>\<open>executeQuery\<close> or \<^verbatim>\<open>executeMutation\<close> comes with the
  transport that answers it. The states a client can be in are the states after a run that
  starts from the state the constructor builds.

  \<^verbatim>\<open>executeQuery\<close> and \<^verbatim>\<open>executeMutation\<close> above take a call and the handler of
  its response as one step. When other calls come between the two, the handler runs on the
  client of that later moment; \<open>executeQuery_then\<close> and \<open>executeMutation_then\<close> are
  the handlers on any client. A handler of \<^verbatim>\<open>executeQuery\<close> that runs late does to the
  client what a call with \<^verbatim>\<open>skipCache = true\<close> does at that moment, so the runs reach
  every state the interleavings reach.
\<close>

datatype ('n, 'e) operation =
    Subscribe string "('n, 'e) callback"
  | Unsubscribe string
  | ExecuteQuery "string \<Rightarrow> (string \<times> 'n json) list \<Rightarrow> ('n, 'e) fetch_outcome"
      "'n query_object" bool
  | ExecuteMutation "string \<Rightarrow> (string \<times> 'n json) list \<Rightarrow> ('n, 'e) fetch_outcome"
      "'n query_object"
  | UpdateSubscribers "string list" "'n json"

fun perform ::
  "(('n::zero) \<Rightarrow> string) \<Rightarrow> (string \<Rightarrow> 'h) \<Rightarrow> ('n json \<Rightarrow> string list)
     \<Rightarrow> ('n, 'e) operation \<Rightarrow> ('n, 'h, 'e) client \<Rightarrow> ('n, 'h, 'e) client" where
  "perform num hashString gank (Subscribe id' callback) s = fst (subscribe id' callback s)"
| "perform num hashString gank (Unsubscribe id') s = unsubscribe id' s"
| "perform num hashString gank (ExecuteQuery fetch q skipCache) s =
     fst (executeQuery num hashString gank fetch q skipCache s)"
| "perform num hashString gank (ExecuteMutation fetch q) s =
     fst (executeMutation num gank fetch q s)"
| "perform num hashString gank (UpdateSubscribers typenames changes) s =
     fst (updateSubscribers s typenames changes)"

fun run ::
  "(('n::zero) \<Rightarrow> string) \<Rightarrow> (string \<Rightarrow> 'h) \<Rightarrow> ('n json \<Rightarrow> string list)
     \<Rightarrow> ('n, 'e) operation list \<Rightarrow> ('n, 'h, 'e) client \<Rightarrow> ('n, 'h, 'e) client" where
  "run num hashString gank [] s = s"
| "run num hashString gank (op # ops) s =
     run num hashString gank ops (perform num hashString gank op s)"

text \<open>
  The cache invariant: every value in the store is truthy.
\<close>

definition store_truthy :: "('n::zero, 'h, 'e) client \<Rightarrow> bool" where
  "store_truthy s \<longleftrightarrow> (\<forall>h v. store s h = Some v \<longrightarrow> truthy v)"

section \<open>An example client\<close>

text \<open>
  The examples instantiate the parameters of the model. Numbers are integers, which
  JavaScript prints in decimal when their magnitude is below \<^verbatim>\<open>1e21\<close>; the hash is
  the identity, a hash without collisions.
\<close>

definition digit :: "nat \<Rightarrow> char" where
  "digit d = (''0123456789'') ! (d mod 10)"

fun show_nat :: "nat \<Rightarrow> string" where
  "show_nat n = (if n < 10 then [digit n] else show_nat (n div 10) @ [digit (n mod 10)])"

declare show_nat.simps [simp del]

definition show_int :: "int \<Rightarrow> string" where
  "show_int i = (if i < 0 then ''-'' @ show_nat (nat (- i)) else show_nat (nat i))"

definition ex_hashString :: "string \<Rightarrow> string" where
  "ex_hashString body = body"

text \<open>
  Modelled from the spec: \<^verbatim>\<open>gankTypeNamesFromResponse\<close> of
  \<^verbatim>\<open>src/modules/typenames\<close> is imported by the client and its source is missing.
  The spec (4.2) describes a depth-first traversal: an array contributes what its elements
  contribute; an object contributes the string under its kind field \<^verbatim>\<open>__typename\<close>,
  if it has one, and what the values of its other fields contribute; scalars and
  \<^verbatim>\<open>null\<close> contribute nothing. The result is the sequence without duplicates.
  It is used in the examples only; the theorems hold for every extractor.
\<close>

fun typenames_walk :: "'n json \<Rightarrow> string list" where
  "typenames_walk (JArr xs) = concat (map typenames_walk xs)"
| "typenames_walk (JObj kvs) =
     (case map_of kvs ''__typename'' of Some (JStr t) \<Rightarrow> [t] | _ \<Rightarrow> []) @
     concat (map (\<lambda>kv. if fst kv = ''__typename'' then [] else typenames_walk (snd kv)) kvs)"
| "typenames_walk v = []"

definition ex_gank :: "int json \<Rightarrow> string list" where
  "ex_gank v = remdups (typenames_walk v)"

text \<open>
  The scenario of the spec (8.8): a client for \<^verbatim>\<open>https://api.test/graphql\<close>, the query
  \<^verbatim>\<open>{ user { name } }\<close> without variables, and a transport that answers
  \<^verbatim>\<open>{data: {user: {__typename: "User", name: "Ann"}}}\<close>.
\<close>

definition ex_opts :: "int client_options option" where
  "ex_opts = Some \<lparr>opts_url = Some ''https://api.test/graphql'', opts_fetchOptions = None\<rparr>"

definition ex_client :: "(int, string, string) client" where
  "ex_client = \<lparr>url = ''https://api.test/graphql'', store = Map.empty,
                 fetchOptions = Static [], subscriptions = []\<rparr>"

definition ex_query :: "int query_object" where
  "ex_query = \<lparr>query = ''{ user { name } }'', variables = []\<rparr>"

definition ex_data :: "int json" where
  "ex_data = JObj [(''user'', JObj [(''__typename'', JStr ''User''), (''name'', JStr ''Ann'')])]"

definition ex_response :: "int json" where
  "ex_response = JObj [(''data'', ex_data)]"

definition ex_fetch :: "string \<Rightarrow> (string \<times> int json) list \<Rightarrow> (int, string) fetch_outcome" where
  "ex_fetch u init = Parses ex_response"

text \<open>The example client after one run of the example query.\<close>

definition ex_cached :: "(int, string, string) client" where
  "ex_cached = run show_int ex_hashString ex_gank [ExecuteQuery ex_fetch ex_query False] ex_client"

text \<open>The call of the transport that the example query makes on the example client.\<close>

definition ex_request :: "int event" where
  "ex_request =
     Fetch ''https://api.test/graphql''
       [(''body'', JStr (request_body show_int ex_query)),
        (''headers'', JObj [(''Content-Type'', JStr ''application/json'')]),
        (''method'', JStr ''POST'')]"

text \<open>A callback that only returns, one that throws, and one that unsubscribes \<^verbatim>\<open>id-2\<close>.\<close>

definition ex_quiet :: "(int, string) callback" where
  "ex_quiet = Callback (\<lambda>typenames changes. ([], None))"

definition ex_thrower :: "(int, string) callback" where
  "ex_thrower = Callback (\<lambda>typenames changes. ([], Some ''boom''))"

definition ex_remover :: "(int, string) callback" where
  "ex_remover = Callback (\<lambda>typenames changes. ([CallsUnsubscribe ''id-2''], None))"

text \<open>The same client with two subscriptions, whose callbacks only return.\<close>

definition ex_subscribed :: "(int, string, string) client" where
  "ex_subscribed =
     run show_int ex_hashString ex_gank
       [ExecuteQuery ex_fetch ex_query False,
        Subscribe ''id-1'' ex_quiet,
        Subscribe ''id-2'' ex_quiet] ex_client"

text \<open>Two clients whose first callback throws, or unsubscribes the second.\<close>

definition ex_throwing :: "(int, string, string) client" where
  "ex_throwing =
     run show_int ex_hashString ex_gank
       [Subscribe ''id-1'' ex_thrower, Subscribe ''id-2'' ex_quiet] ex_client"

definition ex_removing :: "(int, string, string) client" where
  "ex_removing =
     run show_int ex_hashString ex_gank
       [Subscribe ''id-1'' ex_remover, Subscribe ''id-2'' ex_quiet] ex_client"

text \<open>A second answer of the transport to the same query.\<close>

definition ex_data2 :: "int json" where
  "ex_data2 = JObj [(''user'', JObj [(''__typename'', JStr ''User''), (''name'', JStr ''Bob'')])]"

definition ex_fetch2 :: "string \<Rightarrow> (string \<times> int json) list \<Rightarrow> (int, string) fetch_outcome" where
  "ex_fetch2 u init = Parses (JObj [(''data'', ex_data2)])"



section \<open>Properties of the client\<close>

subsection \<open>Auxiliary facts\<close>

lemma truthy_opt_Some: "truthy_opt d \<longleftrightarrow> (\<exists>v. d = Some v \<and> truthy v)"
  by (cases d) simp_all

lemma constructor_Inr:
  "constructor opts = Inr s \<Longrightarrow> store s = Map.empty \<and> subscriptions s = [] \<and> url s \<noteq> []"
  by (auto simp: constructor_def split: option.splits if_splits)

lemma executeQuery_then_cases:
  "executeQuery_then gank hash response s = (s', r) \<Longrightarrow>
     s' = s \<or> (\<exists>v. truthy v \<and> s' = s\<lparr>store := (store s)(hash \<mapsto> v)\<rparr>)"
  by (auto simp: executeQuery_then_def Let_def truthy_opt_Some split: sum.splits if_splits)

text \<open>A run of \<^verbatim>\<open>executeQuery\<close> leaves the client as it is or stores one truthy value.\<close>

lemma executeQuery_cases:
  "fst (executeQuery num hashString gank fetch q skipCache s) = s \<or>
   (\<exists>h v. truthy v \<and>
      fst (executeQuery num hashString gank fetch q skipCache s) = s\<lparr>store := (store s)(h \<mapsto> v)\<rparr>)"
proof (cases "truthy_opt (store s (hashString (request_body num q))) \<and> \<not> skipCache")
  case True
  then show ?thesis by (simp add: executeQuery_def Let_def)
next
  case False
  show ?thesis
  proof (cases "fetch (url s) (fetch_init (request_body num q) (resolve_fetchOptions (fetchOptions s)))")
    case (Rejects e)
    with False show ?thesis by (simp add: executeQuery_def Let_def)
  next
    case (Parses response)
    obtain s' r where t: "executeQuery_then gank (hashString (request_body num q)) response s = (s', r)"
      by (cases "executeQuery_then gank (hashString (request_body num q)) response s")
    from False Parses t have "fst (executeQuery num hashString gank fetch q skipCache s) = s'"
      by (auto simp: executeQuery_def Let_def)
    with executeQuery_then_cases [OF t] show ?thesis by auto
  qed
qed

text \<open>What a callback does to the client: only the subscriptions change.\<close>

lemma reenter_frame:
  "store (reenter r s) = store s" "url (reenter r s) = url s"
  "fetchOptions (reenter r s) = fetchOptions s"
  by (cases r; simp add: subscribe_def unsubscribe_def)+


lemma reenter_store_update: "reenter r (s\<lparr>store := m\<rparr>) = (reenter r s)\<lparr>store := m\<rparr>"
  by (cases r) (simp_all add: subscribe_def unsubscribe_def)

lemma fold_reenter_frame:
  "store (fold reenter rs s) = store s" "url (fold reenter rs s) = url s"
  "fetchOptions (fold reenter rs s) = fetchOptions s"
  by (induction rs arbitrary: s; simp add: reenter_frame)+


lemma fold_reenter_store_update:
  "fold reenter rs (s\<lparr>store := m\<rparr>) = (fold reenter rs s)\<lparr>store := m\<rparr>"
  by (induction rs arbitrary: s) (simp_all add: reenter_store_update)

text \<open>The loop of \<^verbatim>\<open>updateSubscribers\<close>: the three cases of a step.\<close>

lemma loop_skips:
  "map_of (subscriptions s) sub = None \<Longrightarrow>
     updateSubscribers_loop (sub # rest) typenames changes s =
       updateSubscribers_loop rest typenames changes s"
  by simp

lemma loop_throws:
  "map_of (subscriptions s) sub = Some callback \<Longrightarrow>
   call_back callback typenames changes = (rs, Some e) \<Longrightarrow>
     updateSubscribers_loop (sub # rest) typenames changes s =
       (fold reenter rs s, [Call sub typenames changes], Some e)"
  by simp

lemma loop_returns:
  "map_of (subscriptions s) sub = Some callback \<Longrightarrow>
   call_back callback typenames changes = (rs, None) \<Longrightarrow>
     updateSubscribers_loop (sub # rest) typenames changes s =
       (fst (updateSubscribers_loop rest typenames changes (fold reenter rs s)),
        Call sub typenames changes
          # fst (snd (updateSubscribers_loop rest typenames changes (fold reenter rs s))),
        snd (snd (updateSubscribers_loop rest typenames changes (fold reenter rs s))))"
  by (simp add: case_prod_beta Let_def)

declare updateSubscribers_loop.simps(2) [simp del]


lemma loop_frame:
  "store (fst (updateSubscribers_loop keys typenames changes s)) = store s \<and>
   url (fst (updateSubscribers_loop keys typenames changes s)) = url s \<and>
   fetchOptions (fst (updateSubscribers_loop keys typenames changes s)) = fetchOptions s"
proof (induction keys arbitrary: s)
  case Nil
  show ?case by simp
next
  case (Cons sub rest)
  show ?case
  proof (cases "map_of (subscriptions s) sub")
    case None
    with Cons show ?thesis by (simp add: loop_skips)
  next
    case (Some callback)
    obtain rs thrown where c: "call_back callback typenames changes = (rs, thrown)"
      by (cases "call_back callback typenames changes")
    show ?thesis
    proof (cases thrown)
      case None
      with Some c Cons [of "fold reenter rs s"] show ?thesis
        by (simp add: loop_returns fold_reenter_frame)
    next
      case (Some e)
      with \<open>map_of (subscriptions s) sub = Some callback\<close> c show ?thesis
        by (simp add: loop_throws fold_reenter_frame)
    qed
  qed
qed


lemma loop_store_update:
  "updateSubscribers_loop keys typenames changes (s\<lparr>store := m\<rparr>) =
     (fst (updateSubscribers_loop keys typenames changes s)\<lparr>store := m\<rparr>,
      snd (updateSubscribers_loop keys typenames changes s))"
proof (induction keys arbitrary: s)
  case Nil
  show ?case by simp
next
  case (Cons sub rest)
  show ?case
  proof (cases "map_of (subscriptions s) sub")
    case None
    with Cons show ?thesis by (simp add: loop_skips)
  next
    case (Some callback)
    obtain rs thrown where c: "call_back callback typenames changes = (rs, thrown)"
      by (cases "call_back callback typenames changes")
    show ?thesis
    proof (cases thrown)
      case None
      with Some c Cons [of "fold reenter rs s"] show ?thesis
        by (simp add: loop_returns fold_reenter_store_update)
    next
      case (Some e)
      with \<open>map_of (subscriptions s) sub = Some callback\<close> c show ?thesis
        by (simp add: loop_throws fold_reenter_store_update)
    qed
  qed
qed

text \<open>Every call of the loop is a call of a key it was given, with the two arguments.\<close>

lemma loop_calls:
  "e \<in> set (fst (snd (updateSubscribers_loop keys typenames changes s))) \<Longrightarrow>
     \<exists>sub \<in> set keys. e = Call sub typenames changes"
proof (induction keys arbitrary: s)
  case Nil
  then show ?case by simp
next
  case (Cons sub rest)
  show ?case
  proof (cases "map_of (subscriptions s) sub")
    case None
    with Cons show ?thesis by (auto simp: loop_skips)
  next
    case (Some callback)
    obtain rs thrown where c: "call_back callback typenames changes = (rs, thrown)"
      by (cases "call_back callback typenames changes")
    show ?thesis
    proof (cases thrown)
      case None
      with Some c Cons.prems Cons.IH [of "fold reenter rs s"] show ?thesis
        by (auto simp: loop_returns)
    next
      case (Some e')
      with \<open>map_of (subscriptions s) sub = Some callback\<close> c Cons.prems show ?thesis
        by (simp add: loop_throws)
    qed
  qed
qed


text \<open>A key that is registered when the loop starts with it is called.\<close>

lemma loop_first:
  "map_of (subscriptions s) sub = Some callback \<Longrightarrow>
     Call sub typenames changes
       \<in> set (fst (snd (updateSubscribers_loop (sub # rest) typenames changes s)))"
proof -
  assume m: "map_of (subscriptions s) sub = Some callback"
  obtain rs thrown where c: "call_back callback typenames changes = (rs, thrown)"
    by (cases "call_back callback typenames changes")
  show ?thesis
    using m c by (cases thrown) (simp_all add: loop_returns loop_throws)
qed

text \<open>
  Callbacks that make no call on the client and return: the loop calls every key, in
  order, and leaves the client as it is.
\<close>

lemma loop_quiet:
  assumes "\<forall>kv \<in> set (subscriptions s). call_back (snd kv) typenames changes = ([], None)"
      and "set keys \<subseteq> fst ` set (subscriptions s)"
  shows "updateSubscribers_loop keys typenames changes s =
           (s, map (\<lambda>sub. Call sub typenames changes) keys, None)"
  using assms(2)
proof (induction keys)
  case Nil
  show ?case by simp
next
  case (Cons sub rest)
  then have "sub \<in> fst ` set (subscriptions s)"
    by simp
  then obtain callback where m: "map_of (subscriptions s) sub = Some callback"
    by (metis domD dom_map_of_conv_image_fst)
  then have "(sub, callback) \<in> set (subscriptions s)"
    by (rule map_of_SomeD)
  with assms(1) have "call_back callback typenames changes = ([], None)"
    by force
  with m Cons show ?case
    by (simp add: loop_returns)
qed

text \<open>Callbacks that make no call on the client, whether they return or throw.\<close>

lemma loop_no_reentry:
  assumes "\<forall>kv \<in> set (subscriptions s). \<forall>tn ch. fst (call_back (snd kv) tn ch) = []"
  shows "fst (updateSubscribers_loop keys typenames changes s) = s"
proof (induction keys)
  case Nil
  show ?case by simp
next
  case (Cons sub rest)
  show ?case
  proof (cases "map_of (subscriptions s) sub")
    case None
    with Cons show ?thesis by (simp add: loop_skips)
  next
    case (Some callback)
    then have "(sub, callback) \<in> set (subscriptions s)"
      by (rule map_of_SomeD)
    with assms have "fst (call_back callback typenames changes) = []"
      by force
    then obtain thrown where c: "call_back callback typenames changes = ([], thrown)"
      by (cases "call_back callback typenames changes") simp
    with Some Cons show ?thesis
      by (cases thrown) (simp_all add: loop_returns loop_throws)
  qed
qed


text \<open>
  A mutation whose response bears data: the call of the transport, then the broadcast
  with the typenames of the data and the whole response; the promise takes what the
  broadcast throws, or resolves with the data.
\<close>

lemma executeMutation_data:
  assumes "fetch (url s) (fetch_init (request_body num q) (resolve_fetchOptions (fetchOptions s)))
             = Parses response"
      and "response_data response = Inr (Some d)" and "truthy d"
  shows "executeMutation num gank fetch q s =
           (fst (updateSubscribers s (gank d) response),
            Fetch (url s) (fetch_init (request_body num q) (resolve_fetchOptions (fetchOptions s)))
              # fst (snd (updateSubscribers s (gank d) response)),
            case snd (snd (updateSubscribers s (gank d) response)) of
              Some e \<Rightarrow> Inl (Thrown e) | None \<Rightarrow> Inr d)"
  using assms
  by (simp add: executeMutation_def executeMutation_then_def Let_def case_prod_beta
      split: option.splits)

lemma executeMutation_state:
  "fst (executeMutation num gank fetch q s) = s \<or>
   (\<exists>tn ch. fst (executeMutation num gank fetch q s) = fst (updateSubscribers s tn ch))"
  by (auto simp: executeMutation_def executeMutation_then_def Let_def case_prod_beta
      split: fetch_outcome.splits sum.splits option.splits)

lemma executeMutation_frame:
  "store (fst (executeMutation num gank fetch q s)) = store s \<and>
   url (fst (executeMutation num gank fetch q s)) = url s \<and>
   fetchOptions (fst (executeMutation num gank fetch q s)) = fetchOptions s"
  using executeMutation_state [of num gank fetch q s]
  by (auto simp: updateSubscribers_def loop_frame)


lemma executeMutation_then_store_update:
  "executeMutation_then gank response (s\<lparr>store := m\<rparr>) =
     (fst (executeMutation_then gank response s)\<lparr>store := m\<rparr>,
      snd (executeMutation_then gank response s))"
  by (simp add: executeMutation_then_def updateSubscribers_def loop_store_update Let_def
      case_prod_beta split: sum.splits option.splits)

text \<open>The invariants of a run.\<close>

lemma perform_store_truthy:
  assumes "store_truthy s"
  shows "store_truthy (perform num hashString gank op s)"
proof (cases op)
  case (ExecuteQuery fetch q skipCache)
  with assms executeQuery_cases [of num hashString gank fetch q skipCache s] show ?thesis
    by (auto simp: store_truthy_def split: if_splits)
qed (use assms in \<open>simp_all add: store_truthy_def subscribe_def unsubscribe_def
       executeMutation_frame updateSubscribers_def loop_frame\<close>)

lemma run_store_truthy:
  "store_truthy s \<Longrightarrow> store_truthy (run num hashString gank ops s)"
  by (induction ops arbitrary: s) (simp_all add: perform_store_truthy)



lemma reachable_store_truthy:
  "constructor opts = Inr s0 \<Longrightarrow> store_truthy (run num hashString gank ops s0)"
  by (rule run_store_truthy) (simp add: store_truthy_def constructor_Inr)











subsection \<open>Facts about the example\<close>

lemma constructor_ex: "constructor ex_opts = Inr ex_client"
  by (simp add: constructor_def ex_opts_def ex_client_def)

lemma ex_gank_data: "ex_gank ex_data = [''User'']"
  by (simp add: ex_gank_def ex_data_def)

lemma ex_gank_data2: "ex_gank ex_data2 = [''User'']"
  by (simp add: ex_gank_def ex_data2_def)

lemma ex_truthy: "truthy ex_data" "truthy ex_data2"
  by (simp_all add: ex_data_def ex_data2_def)

lemma ex_response_data: "response_data ex_response = Inr (Some ex_data)"
  by (simp add: ex_response_def)

lemma ex_cached_eq:
  "ex_cached = ex_client\<lparr>store := [request_body show_int ex_query \<mapsto> ex_data]\<rparr>"
  by (simp add: ex_cached_def executeQuery_def executeQuery_then_def Let_def ex_client_def
      ex_response_def ex_data_def ex_fetch_def ex_hashString_def)

lemma ex_subscribed_eq:
  "ex_subscribed =
     ex_client\<lparr>store := [request_body show_int ex_query \<mapsto> ex_data],
               subscriptions := [(''id-1'', ex_quiet), (''id-2'', ex_quiet)]\<rparr>"
  by (simp add: ex_subscribed_def executeQuery_def executeQuery_then_def Let_def ex_client_def
      ex_response_def ex_data_def ex_fetch_def ex_hashString_def subscribe_def)

lemma ex_throwing_eq:
  "ex_throwing = ex_client\<lparr>subscriptions := [(''id-1'', ex_thrower), (''id-2'', ex_quiet)]\<rparr>"
  by (simp add: ex_throwing_def ex_client_def subscribe_def)

lemma ex_removing_eq:
  "ex_removing = ex_client\<lparr>subscriptions := [(''id-1'', ex_remover), (''id-2'', ex_quiet)]\<rparr>"
  by (simp add: ex_removing_def ex_client_def subscribe_def)

lemma ex_request_eq:
  "Fetch (url ex_client)
     (fetch_init (request_body show_int ex_query) (resolve_fetchOptions (fetchOptions ex_client)))
     = ex_request"
  by (simp add: ex_request_def fetch_init_def resolve_fetchOptions_def ex_client_def)

lemma ex_cached_request:
  "Fetch (url ex_cached)
     (fetch_init (request_body show_int ex_query) (resolve_fetchOptions (fetchOptions ex_cached)))
     = ex_request"
  using ex_request_eq by (simp add: ex_cached_eq)

lemma ex_subscribed_request:
  "Fetch (url ex_subscribed)
     (fetch_init (request_body show_int ex_query) (resolve_fetchOptions (fetchOptions ex_subscribed)))
     = ex_request"
  using ex_request_eq by (simp add: ex_subscribed_eq)

lemma ex_throwing_request:
  "Fetch (url ex_throwing)
     (fetch_init (request_body show_int ex_query) (resolve_fetchOptions (fetchOptions ex_throwing)))
     = ex_request"
  using ex_request_eq by (simp add: ex_throwing_eq)

lemma ex_removing_request:
  "Fetch (url ex_removing)
     (fetch_init (request_body show_int ex_query) (resolve_fetchOptions (fetchOptions ex_removing)))
     = ex_request"
  using ex_request_eq by (simp add: ex_removing_eq)

lemma ex_subscribed_keys: "map fst (subscriptions ex_subscribed) = [''id-1'', ''id-2'']"
  by (simp add: ex_subscribed_eq)

lemma ex_subscribed_quiet:
  "\<forall>kv \<in> set (subscriptions ex_subscribed). call_back (snd kv) typenames changes = ([], None)"
  by (simp add: ex_subscribed_eq ex_quiet_def)

lemma ex_broadcast:
  "updateSubscribers ex_subscribed [''User''] ex_response =
     (ex_subscribed, [Call ''id-1'' [''User''] ex_response, Call ''id-2'' [''User''] ex_response],
      None)"
  by (simp add: updateSubscribers_def ex_subscribed_eq ex_quiet_def updateSubscribers_loop.simps)

lemma ex_throwing_broadcast:
  "updateSubscribers ex_throwing [''User''] ex_response =
     (ex_throwing, [Call ''id-1'' [''User''] ex_response], Some ''boom'')"
  by (simp add: updateSubscribers_def ex_throwing_eq ex_thrower_def updateSubscribers_loop.simps)

lemma ex_removing_broadcast:
  "updateSubscribers ex_removing [''User''] ex_response =
     (unsubscribe ''id-2'' ex_removing, [Call ''id-1'' [''User''] ex_response], None)"
  by (simp add: updateSubscribers_def ex_removing_eq ex_remover_def unsubscribe_def
      updateSubscribers_loop.simps)

lemma ex_mutation:
  "executeMutation show_int ex_gank ex_fetch ex_query ex_subscribed =
     (ex_subscribed,
      [ex_request, Call ''id-1'' [''User''] ex_response, Call ''id-2'' [''User''] ex_response],
      Inr ex_data)"
  using executeMutation_data [of ex_fetch ex_subscribed show_int ex_query ex_response ex_data ex_gank]
  by (simp add: ex_fetch_def ex_response_data ex_truthy ex_gank_data ex_broadcast
      ex_subscribed_request)

lemma ex_throwing_mutation:
  "executeMutation show_int ex_gank ex_fetch ex_query ex_throwing =
     (ex_throwing, [ex_request, Call ''id-1'' [''User''] ex_response], Inl (Thrown ''boom''))"
  using executeMutation_data [of ex_fetch ex_throwing show_int ex_query ex_response ex_data ex_gank]
  by (simp add: ex_fetch_def ex_response_data ex_truthy ex_gank_data ex_throwing_broadcast
      ex_throwing_request)

lemma ex_removing_mutation:
  "executeMutation show_int ex_gank ex_fetch ex_query ex_removing =
     (unsubscribe ''id-2'' ex_removing, [ex_request, Call ''id-1'' [''User''] ex_response],
      Inr ex_data)"
  using executeMutation_data [of ex_fetch ex_removing show_int ex_query ex_response ex_data ex_gank]
  by (simp add: ex_fetch_def ex_response_data ex_truthy ex_gank_data ex_removing_broadcast
      ex_removing_request)

subsection \<open>The cache\<close>

text \<open>
  C1. In every state of a client in which the store has an entry under the hash of the
  serialized request, \<^verbatim>\<open>executeQuery\<close> with \<^verbatim>\<open>skipCache = false\<close> makes no call
  to the transport (it makes no call at all, whatever the transport is), leaves the client
  as it is, and resolves with the stored entry as \<^verbatim>\<open>data\<close> and the extraction of the
  stored entry as \<^verbatim>\<open>typeNames\<close>. The states of a client are those a run reaches from
  the constructor.
\<close>

theorem cache_hit_avoids_transport:
  assumes "constructor opts = Inr s0"
      and "s = run num hashString gank ops s0"
      and "store s (hashString (request_body num q)) = Some v"
  shows "executeQuery num hashString gank fetch q False s =
           (s, [], Inr \<lparr>data = v, typeNames = gank v\<rparr>)"
proof -
  from assms(1,2) have "store_truthy s"
    by (simp add: reachable_store_truthy)
  with assms(3) have "truthy v"
    by (auto simp: store_truthy_def)
  with assms(3) show ?thesis
    by (simp add: executeQuery_def Let_def)
qed

theorem cache_hit_avoids_transport_witness:
  "constructor ex_opts = Inr ex_client \<and>
   ex_cached = run show_int ex_hashString ex_gank [ExecuteQuery ex_fetch ex_query False] ex_client \<and>
   store ex_cached (ex_hashString (request_body show_int ex_query)) = Some ex_data \<and>
   executeQuery show_int ex_hashString ex_gank (\<lambda>u i. Rejects ''offline'') ex_query False ex_cached
     = (ex_cached, [], Inr \<lparr>data = ex_data, typeNames = [''User'']\<rparr>)"
proof -
  have st: "store ex_cached (ex_hashString (request_body show_int ex_query)) = Some ex_data"
    by (simp add: ex_cached_eq ex_hashString_def)
  have "executeQuery show_int ex_hashString ex_gank (\<lambda>u i. Rejects ''offline'') ex_query False
          ex_cached = (ex_cached, [], Inr \<lparr>data = ex_data, typeNames = [''User'']\<rparr>)"
    using cache_hit_avoids_transport [OF constructor_ex ex_cached_def st]
    by (simp add: ex_gank_data)
  with constructor_ex ex_cached_def st show ?thesis
    by (intro conjI)
qed

text \<open>
  C10. In every state of a client, every value in the store is truthy: the only write to
  the store is under the guard \<^verbatim>\<open>if (response.data)\<close>. So the test
  \<^verbatim>\<open>this.store[hash]\<close> of \<^verbatim>\<open>executeQuery\<close> holds exactly when the store has the
  key.
\<close>

theorem store_values_truthy:
  assumes "constructor opts = Inr s0"
      and "s = run num hashString gank ops s0"
  shows "(\<forall>h v. store s h = Some v \<longrightarrow> truthy v) \<and>
         (\<forall>h. truthy_opt (store s h) \<longleftrightarrow> h \<in> dom (store s))"
proof -
  from assms have "store_truthy s"
    by (simp add: reachable_store_truthy)
  then show ?thesis
    by (auto simp: store_truthy_def truthy_opt_Some)
qed

theorem store_values_truthy_witness:
  "constructor ex_opts = Inr ex_client \<and>
   store ex_cached (request_body show_int ex_query) = Some ex_data \<and>
   truthy ex_data \<and>
   truthy_opt (store ex_cached (request_body show_int ex_query)) \<and>
   request_body show_int ex_query \<in> dom (store ex_cached) \<and>
   \<not> truthy_opt (store ex_cached ''other'') \<and> ''other'' \<notin> dom (store ex_cached)"
proof -
  have st: "store ex_cached (request_body show_int ex_query) = Some ex_data"
    by (simp add: ex_cached_eq)
  have no: "store ex_cached ''other'' = None"
    by (simp add: ex_cached_eq ex_client_def request_body_def quote_def)
  note inv = store_values_truthy [OF constructor_ex ex_cached_def]
  from inv st have t: "truthy ex_data"
    by blast
  from inv have iff: "truthy_opt (store ex_cached h) \<longleftrightarrow> h \<in> dom (store ex_cached)" for h
    by blast
  from st have d1: "request_body show_int ex_query \<in> dom (store ex_cached)"
    by (rule domI)
  from no have d2: "''other'' \<notin> dom (store ex_cached)"
    by (simp add: domIff)
  from d1 have t1: "truthy_opt (store ex_cached (request_body show_int ex_query))"
    by (simp only: iff)
  from d2 have t2: "\<not> truthy_opt (store ex_cached ''other'')"
    by (simp only: iff) simp
  from constructor_ex st t t1 d1 t2 d2 show ?thesis
    by (intro conjI)
qed

text \<open>
  C6. For every request and every client, \<^verbatim>\<open>executeQuery\<close> with
  \<^verbatim>\<open>skipCache = true\<close> calls the transport once, whether or not the store has an
  entry under the hash of the request. When the response bears data (its \<^verbatim>\<open>data\<close>
  passes the guard \<^verbatim>\<open>if (response.data)\<close>), the entry under the hash is that data
  afterwards, and the promise resolves with it.
\<close>

theorem skipCache_forces_refetch:
  "fst (snd (executeQuery num hashString gank fetch q True s)) =
     [Fetch (url s) (fetch_init (request_body num q) (resolve_fetchOptions (fetchOptions s)))] \<and>
   (\<forall>response d.
      fetch (url s) (fetch_init (request_body num q) (resolve_fetchOptions (fetchOptions s)))
        = Parses response \<and> response_data response = Inr (Some d) \<and> truthy d \<longrightarrow>
      store (fst (executeQuery num hashString gank fetch q True s)) (hashString (request_body num q))
        = Some d \<and>
      snd (snd (executeQuery num hashString gank fetch q True s))
        = Inr \<lparr>data = d, typeNames = gank d\<rparr>)"
  by (auto simp: executeQuery_def executeQuery_then_def Let_def split: fetch_outcome.splits sum.splits)

theorem skipCache_forces_refetch_witness:
  "store ex_cached (ex_hashString (request_body show_int ex_query)) = Some ex_data \<and>
   ex_data2 \<noteq> ex_data \<and>
   fst (snd (executeQuery show_int ex_hashString ex_gank ex_fetch2 ex_query True ex_cached))
     = [ex_request] \<and>
   store (fst (executeQuery show_int ex_hashString ex_gank ex_fetch2 ex_query True ex_cached))
     (ex_hashString (request_body show_int ex_query)) = Some ex_data2 \<and>
   snd (snd (executeQuery show_int ex_hashString ex_gank ex_fetch2 ex_query True ex_cached))
     = Inr \<lparr>data = ex_data2, typeNames = [''User'']\<rparr>"
proof -
  have st: "store ex_cached (ex_hashString (request_body show_int ex_query)) = Some ex_data"
    by (simp add: ex_cached_eq ex_hashString_def)
  have ne: "ex_data2 \<noteq> ex_data"
    by (simp add: ex_data_def ex_data2_def)
  have d: "ex_fetch2 (url ex_cached) (fetch_init (request_body show_int ex_query)
             (resolve_fetchOptions (fetchOptions ex_cached))) = Parses (JObj [(''data'', ex_data2)])
           \<and> response_data (JObj [(''data'', ex_data2)]) = Inr (Some ex_data2) \<and> truthy ex_data2"
    by (simp add: ex_fetch2_def ex_truthy)
  from skipCache_forces_refetch [of show_int ex_hashString ex_gank ex_fetch2 ex_query ex_cached] d
  have "fst (snd (executeQuery show_int ex_hashString ex_gank ex_fetch2 ex_query True ex_cached))
          = [ex_request]"
    and "store (fst (executeQuery show_int ex_hashString ex_gank ex_fetch2 ex_query True ex_cached))
          (ex_hashString (request_body show_int ex_query)) = Some ex_data2"
    and "snd (snd (executeQuery show_int ex_hashString ex_gank ex_fetch2 ex_query True ex_cached))
          = Inr \<lparr>data = ex_data2, typeNames = [''User'']\<rparr>"
    by (simp_all add: ex_cached_request ex_gank_data2)
  with st ne show ?thesis
    by (intro conjI)
qed

subsection \<open>Responses without data\<close>

text \<open>
  C2. When the body the transport returns parses to \<^verbatim>\<open>{}\<close>, \<^verbatim>\<open>executeMutation\<close>
  rejects with \<^verbatim>\<open>{ message: 'No data' }\<close>, and so does \<^verbatim>\<open>executeQuery\<close> whenever
  it calls the transport (with \<^verbatim>\<open>skipCache\<close>, or without an entry in the store). The
  client, and so its store, is the same afterwards, and the only call made is the call of
  the transport: no callback is called.
\<close>

theorem no_data_response:
  assumes "fetch (url s) (fetch_init (request_body num q) (resolve_fetchOptions (fetchOptions s)))
             = Parses (JObj [])"
  shows "executeMutation num gank fetch q s =
           (s, [Fetch (url s) (fetch_init (request_body num q) (resolve_fetchOptions (fetchOptions s)))],
            Inl (Message ''No data'')) \<and>
         (skipCache \<or> \<not> truthy_opt (store s (hashString (request_body num q))) \<longrightarrow>
          executeQuery num hashString gank fetch q skipCache s =
           (s, [Fetch (url s) (fetch_init (request_body num q) (resolve_fetchOptions (fetchOptions s)))],
            Inl (Message ''No data'')))"
  using assms
  by (auto simp: executeMutation_def executeMutation_then_def executeQuery_def
      executeQuery_then_def Let_def)

theorem no_data_response_witness:
  "executeMutation show_int ex_gank (\<lambda>u i. Parses (JObj [])) ex_query ex_subscribed =
     (ex_subscribed, [ex_request], Inl (Message ''No data'')) \<and>
   executeQuery show_int ex_hashString ex_gank (\<lambda>u i. Parses (JObj [])) ex_query True ex_subscribed =
     (ex_subscribed, [ex_request], Inl (Message ''No data''))"
  using no_data_response [of "\<lambda>u i. Parses (JObj [])" ex_subscribed show_int ex_query ex_gank
      True ex_hashString]
  by (simp add: ex_subscribed_request)

text \<open>
  C3 as claimed: a response that has a \<^verbatim>\<open>data\<close> field is stored and resolved, and
  \<^verbatim>\<open>NoData\<close> is the failure exactly of a response without the field. The guard of
  the code is the truthiness of \<^verbatim>\<open>response.data\<close>, so the response
  \<^verbatim>\<open>{data: null}\<close>, which has the field, is rejected with
  \<^verbatim>\<open>{ message: 'No data' }\<close> and nothing is stored.
\<close>

theorem falsy_data_counterexample:
  "response_data (JObj [(''data'', JNull :: int json)]) = Inr (Some JNull) \<and>
   snd (snd (executeQuery show_int ex_hashString ex_gank
               (\<lambda>u i. Parses (JObj [(''data'', JNull)])) ex_query False ex_client))
     = Inl (Message ''No data'') \<and>
   store (fst (executeQuery show_int ex_hashString ex_gank
               (\<lambda>u i. Parses (JObj [(''data'', JNull)])) ex_query False ex_client))
     (ex_hashString (request_body show_int ex_query)) = None"
  by (simp add: executeQuery_def executeQuery_then_def Let_def ex_client_def)

text \<open>
  C3, amended. Whenever \<^verbatim>\<open>executeQuery\<close> calls the transport and the body parses to
  a response: if the response has a \<^verbatim>\<open>data\<close> field with a truthy value, that value
  is stored under the hash of the request and the promise resolves with it and with its
  extraction; and the promise is rejected with \<^verbatim>\<open>{ message: 'No data' }\<close> exactly
  when the response is not \<^verbatim>\<open>null\<close> and its \<^verbatim>\<open>data\<close> is missing or falsy.
\<close>

theorem executeQuery_on_response:
  assumes "skipCache \<or> \<not> truthy_opt (store s (hashString (request_body num q)))"
      and "fetch (url s) (fetch_init (request_body num q) (resolve_fetchOptions (fetchOptions s)))
             = Parses response"
  shows "(\<forall>d. response_data response = Inr (Some d) \<and> truthy d \<longrightarrow>
            executeQuery num hashString gank fetch q skipCache s =
              (s\<lparr>store := (store s)(hashString (request_body num q) \<mapsto> d)\<rparr>,
               [Fetch (url s) (fetch_init (request_body num q) (resolve_fetchOptions (fetchOptions s)))],
               Inr \<lparr>data = d, typeNames = gank d\<rparr>)) \<and>
         (snd (snd (executeQuery num hashString gank fetch q skipCache s)) = Inl (Message ''No data'')
            \<longleftrightarrow> (\<exists>d. response_data response = Inr d \<and> \<not> truthy_opt d))"
  using assms
  by (auto simp: executeQuery_def executeQuery_then_def Let_def split: sum.splits)

theorem executeQuery_on_response_witness:
  "executeQuery show_int ex_hashString ex_gank ex_fetch ex_query False ex_client =
     (ex_client\<lparr>store := (store ex_client)(ex_hashString (request_body show_int ex_query) \<mapsto> ex_data)\<rparr>,
      [ex_request], Inr \<lparr>data = ex_data, typeNames = [''User'']\<rparr>) \<and>
   snd (snd (executeQuery show_int ex_hashString ex_gank (\<lambda>u i. Parses (JObj [(''data'', JBool False)]))
               ex_query False ex_client)) = Inl (Message ''No data'') \<and>
   snd (snd (executeQuery show_int ex_hashString ex_gank (\<lambda>u i. Parses JNull)
               ex_query False ex_client)) \<noteq> Inl (Message ''No data'')"
proof -
  have miss: "False \<or> \<not> truthy_opt (store ex_client (ex_hashString (request_body show_int ex_query)))"
    by (simp add: ex_client_def)
  have d: "response_data ex_response = Inr (Some ex_data) \<and> truthy ex_data"
    by (simp add: ex_response_def ex_truthy)
  have "executeQuery show_int ex_hashString ex_gank ex_fetch ex_query False ex_client =
     (ex_client\<lparr>store := (store ex_client)(ex_hashString (request_body show_int ex_query) \<mapsto> ex_data)\<rparr>,
      [ex_request], Inr \<lparr>data = ex_data, typeNames = [''User'']\<rparr>)"
    using executeQuery_on_response [of False ex_client ex_hashString show_int ex_query ex_fetch
        ex_response ex_gank, OF miss] d
    by (simp add: ex_fetch_def ex_request_eq ex_gank_data)
  moreover have "snd (snd (executeQuery show_int ex_hashString ex_gank
       (\<lambda>u i. Parses (JObj [(''data'', JBool False)])) ex_query False ex_client))
     = Inl (Message ''No data'')"
    using executeQuery_on_response [of False ex_client ex_hashString show_int ex_query
        "\<lambda>u i. Parses (JObj [(''data'', JBool False)])" "JObj [(''data'', JBool False)]" ex_gank, OF miss]
    by simp
  moreover have "snd (snd (executeQuery show_int ex_hashString ex_gank (\<lambda>u i. Parses JNull)
               ex_query False ex_client)) \<noteq> Inl (Message ''No data'')"
    using executeQuery_on_response [of False ex_client ex_hashString show_int ex_query
        "\<lambda>u i. Parses JNull" JNull ex_gank, OF miss]
    by simp
  ultimately show ?thesis by (intro conjI)
qed

subsection \<open>Mutations\<close>

text \<open>
  C8. Whatever the transport answers and whatever the callbacks do, \<^verbatim>\<open>executeMutation\<close>
  leaves the store as it was (and the URL and the options; only the subscriptions can
  change, through the callbacks), and it does not read the store: with any other store in
  its place it makes the same calls, settles its promise the same way and leaves the same
  client but for that store. When the callbacks make no call on the client, the whole
  client is as it was.
\<close>

theorem mutation_leaves_cache:
  "store (fst (executeMutation num gank fetch q s)) = store s \<and>
   url (fst (executeMutation num gank fetch q s)) = url s \<and>
   fetchOptions (fst (executeMutation num gank fetch q s)) = fetchOptions s \<and>
   fst (executeMutation num gank fetch q (s\<lparr>store := m\<rparr>))
     = fst (executeMutation num gank fetch q s)\<lparr>store := m\<rparr> \<and>
   snd (executeMutation num gank fetch q (s\<lparr>store := m\<rparr>))
     = snd (executeMutation num gank fetch q s) \<and>
   ((\<forall>kv \<in> set (subscriptions s). \<forall>typenames changes.
        fst (call_back (snd kv) typenames changes) = []) \<longrightarrow>
    fst (executeMutation num gank fetch q s) = s)"
proof -
  have "fst (executeMutation num gank fetch q (s\<lparr>store := m\<rparr>))
          = fst (executeMutation num gank fetch q s)\<lparr>store := m\<rparr>"
    and "snd (executeMutation num gank fetch q (s\<lparr>store := m\<rparr>))
          = snd (executeMutation num gank fetch q s)"
    by (simp_all add: executeMutation_def executeMutation_then_store_update Let_def
        case_prod_beta split: fetch_outcome.splits)
  moreover have "fst (executeMutation num gank fetch q s) = s"
    if "\<forall>kv \<in> set (subscriptions s). \<forall>typenames changes.
          fst (call_back (snd kv) typenames changes) = []"
    using executeMutation_state [of num gank fetch q s] loop_no_reentry [OF that]
    by (auto simp: updateSubscribers_def)
  ultimately show ?thesis
    using executeMutation_frame [of num gank fetch q s] by (intro conjI impI) simp_all
qed

theorem mutation_leaves_cache_witness:
  "fst (executeMutation show_int ex_gank ex_fetch ex_query ex_throwing) = ex_throwing \<and>
   store (fst (executeMutation show_int ex_gank ex_fetch ex_query ex_removing))
     = store ex_removing \<and>
   subscriptions (fst (executeMutation show_int ex_gank ex_fetch ex_query ex_removing))
     \<noteq> subscriptions ex_removing"
proof -
  have "\<forall>kv \<in> set (subscriptions ex_throwing). \<forall>typenames changes.
          fst (call_back (snd kv) typenames changes) = []"
    by (simp add: ex_throwing_eq ex_thrower_def ex_quiet_def)
  note same = mutation_leaves_cache [of show_int ex_gank ex_fetch ex_query ex_throwing,
      THEN conjunct2, THEN conjunct2, THEN conjunct2, THEN conjunct2, THEN conjunct2,
      THEN mp, OF this]
  note store = mutation_leaves_cache [of show_int ex_gank ex_fetch ex_query ex_removing,
      THEN conjunct1]
  have "subscriptions (fst (executeMutation show_int ex_gank ex_fetch ex_query ex_removing))
     \<noteq> subscriptions ex_removing"
    by (simp add: ex_removing_mutation unsubscribe_def) (simp add: ex_removing_eq)
  with same store show ?thesis
    by (intro conjI)
qed

text \<open>
  C4 as claimed: the second argument of every callback is the \<^verbatim>\<open>data\<close> field of the
  response. The code calls \<^verbatim>\<open>this.updateSubscribers(typeNames, response)\<close>: the
  callback of the example receives \<^verbatim>\<open>{data: {user: ...}}\<close>, the whole response, while
  the promise resolves with \<^verbatim>\<open>{user: ...}\<close>.
\<close>

theorem callback_receives_response_counterexample:
  "executeMutation show_int ex_gank ex_fetch ex_query (fst (subscribe ''id-1'' ex_quiet ex_client)) =
     (fst (subscribe ''id-1'' ex_quiet ex_client),
      [ex_request, Call ''id-1'' [''User''] (JObj [(''data'', ex_data)])],
      Inr ex_data) \<and>
   JObj [(''data'', ex_data)] \<noteq> ex_data"
proof -
  have "executeMutation show_int ex_gank ex_fetch ex_query (fst (subscribe ''id-1'' ex_quiet ex_client)) =
     (fst (subscribe ''id-1'' ex_quiet ex_client),
      [ex_request, Call ''id-1'' [''User''] (JObj [(''data'', ex_data)])],
      Inr ex_data)"
    by (simp add: executeMutation_def executeMutation_then_def updateSubscribers_def Let_def
        updateSubscribers_loop.simps subscribe_def ex_quiet_def ex_fetch_def ex_response_def
        ex_gank_data ex_truthy ex_request_eq)
      (simp add: ex_client_def updateSubscribers_loop.simps)
  moreover have "JObj [(''data'', ex_data)] \<noteq> ex_data"
    by (simp add: ex_data_def)
  ultimately show ?thesis by (intro conjI)
qed

text \<open>
  C4, amended. For every \<^verbatim>\<open>executeMutation\<close> whose response bears data, the second
  argument of every call of a callback is the whole parsed response of the transport, the
  object whose \<^verbatim>\<open>data\<close> field is the data of the mutation; the first argument is the
  extraction of that data, and the callback called is one that was subscribed when the
  broadcast started. The broadcast calls the first subscribed callback in every case, and
  every subscribed callback when the callbacks make no call on the client and return.
\<close>

theorem callback_receives_response:
  assumes "fetch (url s) (fetch_init (request_body num q) (resolve_fetchOptions (fetchOptions s)))
             = Parses response"
      and "response_data response = Inr (Some d)" and "truthy d"
  shows "(\<forall>sub typenames changes.
            Call sub typenames changes \<in> set (fst (snd (executeMutation num gank fetch q s))) \<longrightarrow>
            changes = response \<and> typenames = gank d \<and> sub \<in> fst ` set (subscriptions s)) \<and>
         (subscriptions s \<noteq> [] \<longrightarrow>
            Call (fst (hd (subscriptions s))) (gank d) response
              \<in> set (fst (snd (executeMutation num gank fetch q s)))) \<and>
         ((\<forall>kv \<in> set (subscriptions s). call_back (snd kv) (gank d) response = ([], None)) \<longrightarrow>
            (\<forall>sub \<in> fst ` set (subscriptions s).
               Call sub (gank d) response \<in> set (fst (snd (executeMutation num gank fetch q s)))))"
proof -
  let ?calls = "fst (snd (updateSubscribers s (gank d) response))"
  have ev: "fst (snd (executeMutation num gank fetch q s))
      = Fetch (url s) (fetch_init (request_body num q) (resolve_fetchOptions (fetchOptions s)))
        # ?calls"
    by (simp add: executeMutation_data [of fetch s num q response d gank, OF assms])
  have all: "changes = response \<and> typenames = gank d \<and> sub \<in> fst ` set (subscriptions s)"
    if "Call sub typenames changes \<in> set (fst (snd (executeMutation num gank fetch q s)))"
    for sub typenames changes
  proof -
    from that have "Call sub typenames changes \<in> set ?calls"
      by (simp add: ev)
    then show ?thesis
      by (auto simp: updateSubscribers_def dest!: loop_calls)
  qed
  have first: "Call (fst (hd (subscriptions s))) (gank d) response
      \<in> set (fst (snd (executeMutation num gank fetch q s)))" if "subscriptions s \<noteq> []"
  proof -
    from that obtain kv rest where subs: "subscriptions s = kv # rest"
      by (cases "subscriptions s") auto
    then have "map_of (subscriptions s) (fst kv) = Some (snd kv)"
      by simp
    then have "Call (fst kv) (gank d) response
        \<in> set (fst (snd (updateSubscribers_loop (fst kv # map fst rest) (gank d) response s)))"
      by (rule loop_first)
    with subs show ?thesis
      by (simp add: ev updateSubscribers_def)
  qed
  have quiet: "Call sub (gank d) response \<in> set (fst (snd (executeMutation num gank fetch q s)))"
    if "\<forall>kv \<in> set (subscriptions s). call_back (snd kv) (gank d) response = ([], None)"
      and "sub \<in> fst ` set (subscriptions s)" for sub
  proof -
    from that(1) have "updateSubscribers s (gank d) response =
        (s, map (\<lambda>sub. Call sub (gank d) response) (map fst (subscriptions s)), None)"
      unfolding updateSubscribers_def by (rule loop_quiet) simp
    with that(2) show ?thesis
      by (auto simp: ev)
  qed
  from all first quiet show ?thesis
    by blast
qed

theorem callback_receives_response_witness:
  "ex_fetch (url ex_throwing) (fetch_init (request_body show_int ex_query)
       (resolve_fetchOptions (fetchOptions ex_throwing))) = Parses ex_response \<and>
   response_data ex_response = Inr (Some ex_data) \<and> truthy ex_data \<and>
   subscriptions ex_throwing \<noteq> [] \<and>
   fst (snd (executeMutation show_int ex_gank ex_fetch ex_query ex_throwing))
     = [ex_request, Call ''id-1'' [''User''] ex_response] \<and>
   Call (fst (hd (subscriptions ex_throwing))) (ex_gank ex_data) ex_response
     \<in> set (fst (snd (executeMutation show_int ex_gank ex_fetch ex_query ex_throwing))) \<and>
   Call ''id-2'' (ex_gank ex_data) ex_response
     \<in> set (fst (snd (executeMutation show_int ex_gank ex_fetch ex_query ex_subscribed)))"
proof -
  have f: "ex_fetch (url ex_throwing) (fetch_init (request_body show_int ex_query)
       (resolve_fetchOptions (fetchOptions ex_throwing))) = Parses ex_response"
    and f': "ex_fetch (url ex_subscribed) (fetch_init (request_body show_int ex_query)
       (resolve_fetchOptions (fetchOptions ex_subscribed))) = Parses ex_response"
    by (simp_all add: ex_fetch_def)
  have n: "subscriptions ex_throwing \<noteq> []"
    by (simp add: ex_throwing_eq)
  have e: "fst (snd (executeMutation show_int ex_gank ex_fetch ex_query ex_throwing))
     = [ex_request, Call ''id-1'' [''User''] ex_response]"
    by (simp add: ex_throwing_mutation)
  note throwing = callback_receives_response [of ex_fetch ex_throwing show_int ex_query
      ex_response ex_data ex_gank, OF f ex_response_data ex_truthy(1)]
  note subscribed = callback_receives_response [of ex_fetch ex_subscribed show_int ex_query
      ex_response ex_data ex_gank, OF f' ex_response_data ex_truthy(1)]
  note first = throwing [THEN conjunct2, THEN conjunct1, rule_format, OF n]
  have "''id-2'' \<in> fst ` set (subscriptions ex_subscribed)"
    using ex_subscribed_keys by (simp flip: set_map)
  note every = subscribed [THEN conjunct2, THEN conjunct2, THEN mp, OF ex_subscribed_quiet,
      THEN bspec, OF this]
  from f ex_response_data ex_truthy(1) n e first every show ?thesis
    by (intro conjI)
qed




subsection \<open>Subscriptions\<close>

text \<open>
  C9. \<^verbatim>\<open>unsubscribe\<close> has no failure: it returns a client for every identifier and
  every client. A second call with the same identifier changes nothing; a call with an
  identifier that is not registered (never issued, or removed before) leaves the client as
  it is; and every subscription under another identifier stays registered, with its
  callback and in its place.
\<close>

theorem unsubscribe_idempotent:
  "unsubscribe i (unsubscribe i s) = unsubscribe i s \<and>
   (i \<notin> fst ` set (subscriptions s) \<longrightarrow> unsubscribe i s = s) \<and>
   (\<forall>j. j \<noteq> i \<longrightarrow> map_of (subscriptions (unsubscribe i s)) j = map_of (subscriptions s) j) \<and>
   subscriptions (unsubscribe i s) = filter (\<lambda>kv. fst kv \<noteq> i) (subscriptions s)"
proof (intro conjI impI allI)
  show "unsubscribe i (unsubscribe i s) = unsubscribe i s"
    by (simp add: unsubscribe_def delete_idem)
  show "unsubscribe i s = s" if "i \<notin> fst ` set (subscriptions s)"
    using that by (simp add: unsubscribe_def)
  show "map_of (subscriptions (unsubscribe i s)) j = map_of (subscriptions s) j" if "j \<noteq> i" for j
    using that by (simp add: unsubscribe_def)
  show "subscriptions (unsubscribe i s) = filter (\<lambda>kv. fst kv \<noteq> i) (subscriptions s)"
    by (auto simp: unsubscribe_def AList.delete_eq intro: filter_cong)
qed

theorem unsubscribe_idempotent_witness:
  "''id-9'' \<notin> fst ` set (subscriptions ex_subscribed) \<and>
   unsubscribe ''id-9'' ex_subscribed = ex_subscribed \<and>
   unsubscribe ''id-1'' (unsubscribe ''id-1'' ex_subscribed) = unsubscribe ''id-1'' ex_subscribed \<and>
   map fst (subscriptions (unsubscribe ''id-1'' ex_subscribed)) = [''id-2''] \<and>
   map_of (subscriptions (unsubscribe ''id-1'' ex_subscribed)) ''id-2''
     = map_of (subscriptions ex_subscribed) ''id-2''"
proof -
  have a: "''id-9'' \<notin> fst ` set (subscriptions ex_subscribed)"
    using ex_subscribed_keys by (simp flip: set_map)
  have b: "''id-2'' \<noteq> ''id-1''"
    by simp
  note unknown = unsubscribe_idempotent [of "''id-9''" ex_subscribed]
  note known = unsubscribe_idempotent [of "''id-1''" ex_subscribed]
  note r1 = unknown [THEN conjunct2, THEN conjunct1, rule_format, OF a]
  note r2 = known [THEN conjunct1]
  note r3 = known [THEN conjunct2, THEN conjunct2, THEN conjunct1, rule_format, OF b]
  note r4 = known [THEN conjunct2, THEN conjunct2, THEN conjunct2]
  have "map fst (subscriptions (unsubscribe ''id-1'' ex_subscribed))
          = filter (\<lambda>k. k \<noteq> ''id-1'') (map fst (subscriptions ex_subscribed))"
    by (simp only: r4 filter_map comp_def)
  then have r5: "map fst (subscriptions (unsubscribe ''id-1'' ex_subscribed)) = [''id-2'']"
    by (simp add: ex_subscribed_keys)
  from a r1 r2 r5 r3 show ?thesis
    by (intro conjI)
qed

subsection \<open>The serialized request\<close>




end
